theory Spec2Isabelle
  imports Main
begin

section \<open>Python values and the operations the scraper applies to them\<close>

text \<open>
  The scraper works on the result of \<^verbatim>\<open>request.json()\<close>: nested Python values built from
  \<^verbatim>\<open>None\<close>, booleans, integers, strings, lists and dicts. A dict is an association list
  (lookup takes the first binding of a key). A \<open>char\<close> of a model string stands for one
  character of the Python string. Fractional JSON numbers are outside the model.
\<close>

datatype pyval =
    PyNone
  | PyBool bool
  | PyInt int
  | PyStr string
  | PyList "pyval list"
  | PyDict "(string \<times> pyval) list"

text \<open>
  The exceptions that can leave the functions modelled here. \<open>SystemExit\<close> carries the
  argument of \<^verbatim>\<open>sys.exit\<close> (\<open>None\<close> for \<^verbatim>\<open>sys.exit()\<close>).
\<close>

datatype exn =
    KeyError string
  | AttributeError
  | TypeError
  | SystemExit "int option"

definition bind :: "exn + 'a \<Rightarrow> ('a \<Rightarrow> exn + 'b) \<Rightarrow> exn + 'b" where
  "bind m f = (case m of Inl e \<Rightarrow> Inl e | Inr x \<Rightarrow> f x)"

text \<open>\<^verbatim>\<open>obj.get(key, default)\<close>: only a dict has the method.\<close>

fun py_get :: "pyval \<Rightarrow> string \<Rightarrow> pyval \<Rightarrow> exn + pyval" where
  "py_get (PyDict d) k dflt = Inr (case map_of d k of None \<Rightarrow> dflt | Some v \<Rightarrow> v)"
| "py_get _ k dflt = Inl AttributeError"

text \<open>\<^verbatim>\<open>obj[key]\<close> with a string key: \<^verbatim>\<open>KeyError\<close> on a dict without the key,
  \<^verbatim>\<open>TypeError\<close> on every other value.\<close>

fun py_item :: "pyval \<Rightarrow> string \<Rightarrow> exn + pyval" where
  "py_item (PyDict d) k = (case map_of d k of None \<Rightarrow> Inl (KeyError k) | Some v \<Rightarrow> Inr v)"
| "py_item _ k = Inl TypeError"

fun substring :: "string \<Rightarrow> string \<Rightarrow> bool" where
  "substring sub [] = (sub = [])"
| "substring sub (c # cs) = (take (length sub) (c # cs) = sub \<or> substring sub cs)"

text \<open>\<^verbatim>\<open>key in obj\<close> with a string key: key membership on a dict, substring test on a
  string, element membership on a list, \<^verbatim>\<open>TypeError\<close> otherwise.\<close>

fun py_in :: "string \<Rightarrow> pyval \<Rightarrow> exn + bool" where
  "py_in k (PyDict d) = Inr (k \<in> set (map fst d))"
| "py_in k (PyStr s) = Inr (substring k s)"
| "py_in k (PyList xs) = Inr (PyStr k \<in> set xs)"
| "py_in k _ = Inl TypeError"

definition dict_keys :: "(string \<times> pyval) list \<Rightarrow> string list" where
  "dict_keys d = rev (remdups (rev (map fst d)))"

text \<open>What a \<^verbatim>\<open>for\<close> loop or \<^verbatim>\<open>str.join\<close> iterates over.\<close>

fun py_iter :: "pyval \<Rightarrow> exn + pyval list" where
  "py_iter (PyList xs) = Inr xs"
| "py_iter (PyStr s) = Inr (map (\<lambda>c. PyStr [c]) s)"
| "py_iter (PyDict d) = Inr (map PyStr (dict_keys d))"
| "py_iter _ = Inl TypeError"

text \<open>Truth value of an object, as \<^verbatim>\<open>not obj\<close> and \<^verbatim>\<open>if obj\<close> test it.\<close>

fun py_truthy :: "pyval \<Rightarrow> bool" where
  "py_truthy PyNone = False"
| "py_truthy (PyBool b) = b"
| "py_truthy (PyInt i) = (i \<noteq> 0)"
| "py_truthy (PyStr s) = (s \<noteq> [])"
| "py_truthy (PyList xs) = (xs \<noteq> [])"
| "py_truthy (PyDict d) = (d \<noteq> [])"

fun join_with :: "string \<Rightarrow> string list \<Rightarrow> string" where
  "join_with sep [] = []"
| "join_with sep [x] = x"
| "join_with sep (x # y # ys) = x @ sep @ join_with sep (y # ys)"

fun str_items :: "pyval list \<Rightarrow> exn + string list" where
  "str_items [] = Inr []"
| "str_items (PyStr s # xs) = bind (str_items xs) (\<lambda>ss. Inr (s # ss))"
| "str_items (_ # xs) = Inl TypeError"

text \<open>\<^verbatim>\<open>sep.join(obj)\<close>: every element the iteration yields must be a string.\<close>

definition py_join :: "string \<Rightarrow> pyval \<Rightarrow> exn + string" where
  "py_join sep obj = bind (py_iter obj) (\<lambda>xs. bind (str_items xs) (\<lambda>ss. Inr (join_with sep ss)))"

text \<open>\<^verbatim>\<open>str\<close> of an integer: the decimal digits, after a minus sign when it is negative.
  The bound some interpreters put on the number of digits converted is not modelled.\<close>

fun digits :: "nat \<Rightarrow> string" where
  "digits n = (if n < 10 then [''0123456789'' ! n]
               else digits (n div 10) @ [''0123456789'' ! (n mod 10)])"

definition str_int :: "int \<Rightarrow> string" where
  "str_int i = (if i < 0 then ''-'' @ digits (nat (- i)) else digits (nat i))"

section \<open>The environment of a run\<close>

text \<open>
  What the program reads from outside itself: the reply of \<^verbatim>\<open>requests.get\<close> to a URL
  (with the network in state \<open>'n\<close>, which the call may change), the date
  \<^verbatim>\<open>time.strftime("%Y-%m-%d")\<close> prints, whether the file system accepts a file, and the
  text \<^verbatim>\<open>str\<close> gives for a list or a dict.
\<close>

datatype http_result =
    Timeout
  | RequestError
  | Response nat pyval

record 'n env =
  http_get :: "'n \<Rightarrow> string \<Rightarrow> http_result \<times> 'n"
  today :: string
  disk_ok :: "string \<Rightarrow> bool"
  container_str :: "pyval \<Rightarrow> string"

text \<open>\<^verbatim>\<open>str(obj)\<close>, also the text an f-string inserts for \<^verbatim>\<open>{obj}\<close>.\<close>

fun py_str :: "'n env \<Rightarrow> pyval \<Rightarrow> string" where
  "py_str env (PyStr s) = s"
| "py_str env (PyInt i) = str_int i"
| "py_str env (PyBool b) = (if b then ''True'' else ''False'')"
| "py_str env PyNone = ''None''"
| "py_str env v = container_str env v"

section \<open>Constants of the scraper\<close>

definition SNIPPET_FEATURES :: "string list" where
  "SNIPPET_FEATURES = [''title'', ''publishedAt'', ''channelId'', ''channelTitle'', ''categoryId'']"

definition UNSAFE_CHARACTERS :: "char list" where
  "UNSAFE_CHARACTERS = [CHR 0x0A, CHR 0x22]"

definition HEADER :: "string list" where
  "HEADER = [''video_id''] @ SNIPPET_FEATURES @
     [''trending_date'', ''tags'', ''view_count'', ''likes'', ''dislikes'',
      ''comment_count'', ''thumbnail_link'', ''comments_disabled'',
      ''ratings_disabled'', ''description'', ''duration'']"

definition CATEGORIES :: "(string \<times> string) list" where
  "CATEGORIES =
     [(''1'', ''Film & Animation''), (''2'', ''Autos & Vehicles''), (''10'', ''Music''),
      (''15'', ''Pets & Animals''), (''17'', ''Sports''), (''20'', ''Gaming''),
      (''22'', ''People & Blogs''), (''23'', ''Comedy''), (''24'', ''Entertainment''),
      (''25'', ''News & Politics''), (''26'', ''Howto & Style''), (''27'', ''Education''),
      (''28'', ''Science & Technology'')]"

section \<open>Sanitizer and record extractor\<close>

text \<open>\<^verbatim>\<open>s.replace(ch, "")\<close> for a single character \<open>ch\<close>.\<close>

definition remove_char :: "char \<Rightarrow> string \<Rightarrow> string" where
  "remove_char ch s = filter (\<lambda>c. c \<noteq> ch) s"

definition prepare_feature :: "'n env \<Rightarrow> pyval \<Rightarrow> string" where
  "prepare_feature env feature =
     [CHR 0x22] @ fold remove_char UNSAFE_CHARACTERS (py_str env feature) @ [CHR 0x22]"

definition get_tags :: "'n env \<Rightarrow> pyval \<Rightarrow> exn + string" where
  "get_tags env tags_list =
     bind (py_join ''|'' (if \<not> py_truthy tags_list then PyList [PyStr ''[none]''] else tags_list))
       (\<lambda>joined. Inr (prepare_feature env (PyStr joined)))"

text \<open>The comprehension over \<open>SNIPPET_FEATURES\<close>, in the order of the list.\<close>

fun snippet_features :: "'n env \<Rightarrow> pyval \<Rightarrow> string list \<Rightarrow> exn + string list" where
  "snippet_features env snippet [] = Inr []"
| "snippet_features env snippet (feature # rest) =
     bind (py_get snippet feature (PyStr ''''))
       (\<lambda>v. bind (snippet_features env snippet rest)
          (\<lambda>fs. Inr (prepare_feature env v # fs)))"

text \<open>The two branches on \<^verbatim>\<open>likeCount\<close> and on \<^verbatim>\<open>commentCount\<close>; each gives the
  disabled flag with the counts.\<close>

definition like_counts :: "pyval \<Rightarrow> exn + bool \<times> pyval \<times> pyval" where
  "like_counts statistics =
     bind (py_in ''likeCount'' statistics) (\<lambda>present.
       if present then
         bind (py_item statistics ''likeCount'') (\<lambda>likes.
         bind (py_get statistics ''dislikeCount'' (PyInt 0)) (\<lambda>dislikes.
         Inr (False, likes, dislikes)))
       else Inr (True, PyInt 0, PyInt 0))"

definition comment_counts :: "pyval \<Rightarrow> exn + bool \<times> pyval" where
  "comment_counts statistics =
     bind (py_in ''commentCount'' statistics) (\<lambda>present.
       if present then
         bind (py_item statistics ''commentCount'') (\<lambda>comment_count.
         Inr (False, comment_count))
       else Inr (True, PyInt 0))"

text \<open>
  The body of the loop of \<^verbatim>\<open>get_videos\<close> after the test for \<^verbatim>\<open>statistics\<close>: the list
  \<^verbatim>\<open>line\<close> of one video, or the first exception a statement of the body raises.
\<close>

definition video_line :: "'n env \<Rightarrow> pyval \<Rightarrow> exn + string list" where
  "video_line env video =
     bind (py_item video ''id'') (\<lambda>vid.
     bind (py_get video ''contentDetails'' (PyDict [])) (\<lambda>content_details.
     bind (py_get content_details ''duration'' (PyStr '''')) (\<lambda>duration.
     bind (py_item video ''snippet'') (\<lambda>snippet.
     bind (py_item video ''statistics'') (\<lambda>statistics.
     bind (snippet_features env snippet SNIPPET_FEATURES) (\<lambda>features.
     bind (py_get snippet ''description'' (PyStr '''')) (\<lambda>description.
     bind (py_get snippet ''thumbnails'' (PyDict [])) (\<lambda>thumbnails.
     bind (py_get thumbnails ''default'' (PyDict [])) (\<lambda>default_thumbnail.
     bind (py_get default_thumbnail ''url'' (PyStr '''')) (\<lambda>thumbnail_link.
     bind (py_get snippet ''tags'' (PyList [])) (\<lambda>tags_list.
     bind (get_tags env tags_list) (\<lambda>tags.
     bind (py_get statistics ''viewCount'' (PyInt 0)) (\<lambda>view_count.
     bind (like_counts statistics) (\<lambda>(ratings_disabled, likes, dislikes).
     bind (comment_counts statistics) (\<lambda>(comments_disabled, comment_count).
     Inr ([prepare_feature env vid] @ features @
          map (prepare_feature env)
            [PyStr (today env), PyStr tags, view_count, likes, dislikes,
             comment_count, thumbnail_link, PyBool comments_disabled,
             PyBool ratings_disabled, description, duration]))))))))))))))))"

fun videos_loop :: "'n env \<Rightarrow> string list \<Rightarrow> pyval list \<Rightarrow> exn + string list" where
  "videos_loop env lines [] = Inr lines"
| "videos_loop env lines (video # rest) =
     bind (py_in ''statistics'' video) (\<lambda>present.
       if \<not> present then videos_loop env lines rest
       else bind (video_line env video)
              (\<lambda>line. videos_loop env (lines @ [join_with '','' line]) rest))"

definition get_videos :: "'n env \<Rightarrow> pyval \<Rightarrow> exn + string list" where
  "get_videos env items = bind (py_iter items) (videos_loop env [])"

text \<open>The field of a row that stands under a column of the header.\<close>

definition field :: "string \<Rightarrow> string list \<Rightarrow> string option" where
  "field name line = map_of (zip HEADER line) name"

section \<open>Page fetcher and pagination driver\<close>

definition request_url :: "string \<Rightarrow> string \<Rightarrow> string \<Rightarrow> string option \<Rightarrow> string" where
  "request_url page_token country_code api_key category_id =
     (let category_param =
            (case category_id of
               None \<Rightarrow> ''''
             | Some c \<Rightarrow> if c \<noteq> '''' then ''&videoCategoryId='' @ c else '''')
      in ''https://www.googleapis.com/youtube/v3/videos?'' @
         ''part=id,statistics,snippet,contentDetails&'' @
         page_token @
         ''chart=mostPopular&'' @
         ''regionCode='' @ country_code @ ''&'' @
         ''maxResults=50'' @
         category_param @ ''&'' @
         ''key='' @ api_key)"

text \<open>
  One request. The result is the exception that leaves the function (only
  \<open>SystemExit\<close>: the two handlers catch the errors of \<^verbatim>\<open>requests\<close>), or the value
  returned: \<^verbatim>\<open>None\<close>, or the parsed body \<^verbatim>\<open>request.json()\<close>. A reply carries its body as
  parsed; a reply with status 200 whose body is not JSON is outside the model.
\<close>

definition api_request ::
  "'n env \<Rightarrow> string \<Rightarrow> string \<Rightarrow> string \<Rightarrow> string option \<Rightarrow> 'n \<Rightarrow> (exn + pyval) \<times> 'n" where
  "api_request env page_token country_code api_key category_id net =
     (case http_get env net (request_url page_token country_code api_key category_id) of
        (Timeout, net') \<Rightarrow> (Inr PyNone, net')
      | (RequestError, net') \<Rightarrow> (Inr PyNone, net')
      | (Response status_code body, net') \<Rightarrow>
          if status_code = 429 then (Inl (SystemExit None), net')
          else if status_code = 403 then (Inl (SystemExit (Some 1)), net')
          else if status_code \<noteq> 200 then (Inr PyNone, net')
          else (Inr body, net'))"

text \<open>The rows of one page: \<^verbatim>\<open>get_videos(video_data_page.get('items', []))\<close>.\<close>

definition page_rows :: "'n env \<Rightarrow> pyval \<Rightarrow> exn + string list" where
  "page_rows env video_data_page =
     bind (py_get video_data_page ''items'' (PyList [])) (get_videos env)"

text \<open>
  The \<^verbatim>\<open>while\<close> loop of \<^verbatim>\<open>get_pages\<close>. It has no bound of its own, so a run that never
  leaves it has the value \<open>None\<close>.
\<close>

partial_function (option) pages_loop ::
  "'n env \<Rightarrow> string \<Rightarrow> string \<Rightarrow> string option \<Rightarrow> string list \<Rightarrow> string option \<Rightarrow> 'n
     \<Rightarrow> ((exn + string list) \<times> 'n) option" where
  "pages_loop env country_code api_key category_id country_data next_page_token net =
     (case next_page_token of
        None \<Rightarrow> Some (Inr country_data, net)
      | Some page_token \<Rightarrow>
         (case api_request env page_token country_code api_key category_id net of
            (Inl e, net') \<Rightarrow> Some (Inl e, net')
          | (Inr video_data_page, net') \<Rightarrow>
             if video_data_page = PyNone then Some (Inr country_data, net')
             else
             (case py_get video_data_page ''nextPageToken'' PyNone of
                Inl e \<Rightarrow> Some (Inl e, net')
              | Inr token \<Rightarrow>
                 (case page_rows env video_data_page of
                    Inl e \<Rightarrow> Some (Inl e, net')
                  | Inr rows \<Rightarrow>
                     pages_loop env country_code api_key category_id (country_data @ rows)
                       (if token \<noteq> PyNone then Some (''pageToken='' @ py_str env token @ ''&'')
                        else None)
                       net'))))"

definition get_pages ::
  "'n env \<Rightarrow> string \<Rightarrow> string \<Rightarrow> string option \<Rightarrow> 'n \<Rightarrow> ((exn + string list) \<times> 'n) option" where
  "get_pages env country_code api_key category_id net =
     pages_loop env country_code api_key category_id [] (Some ''&'') net"

section \<open>Writer and orchestrator\<close>

text \<open>\<^verbatim>\<open>s.replace(old, new)\<close> for a single character \<open>old\<close>.\<close>

definition replace_char :: "char \<Rightarrow> string \<Rightarrow> string \<Rightarrow> string" where
  "replace_char old new s = concat (map (\<lambda>c. if c = old then new else [c]) s)"

definition output_filename :: "'n env \<Rightarrow> string \<Rightarrow> string \<Rightarrow> string option \<Rightarrow> string" where
  "output_filename env country_code output_dir category_name =
     (let category_suffix =
            (case category_name of
               None \<Rightarrow> ''''
             | Some n \<Rightarrow>
                 if n \<noteq> '''' then ''_'' @ replace_char CHR ''&'' ''and'' (replace_char CHR '' '' ''_'' n)
                 else '''')
      in output_dir @ ''/'' @ today env @ ''_'' @ country_code @ category_suffix @ ''_videos.csv'')"

text \<open>
  The files are a map from path to text. Where the file system refuses the file
  (\<open>disk_ok\<close> is false: making the directory, opening or writing raises), the handler of
  \<^verbatim>\<open>write_to_file\<close> prints the error and returns; the files are then taken to be as they
  were. What the function prints is not modelled.
\<close>

definition write_to_file ::
  "'n env \<Rightarrow> string \<Rightarrow> string list \<Rightarrow> string \<Rightarrow> string option \<Rightarrow> string option
     \<Rightarrow> (string \<rightharpoonup> string) \<Rightarrow> (string \<rightharpoonup> string)" where
  "write_to_file env country_code country_data output_dir category_id category_name files =
     (let filename = output_filename env country_code output_dir category_name
      in if disk_ok env filename
         then files(filename \<mapsto> concat (map (\<lambda>row. row @ [CHR 0x0A]) country_data))
         else files)"

text \<open>The inner loop of \<^verbatim>\<open>get_data\<close>, over the categories left for one country.\<close>

fun categories_loop ::
  "'n env \<Rightarrow> string \<Rightarrow> string \<Rightarrow> string \<Rightarrow> (string \<times> string) list
     \<Rightarrow> 'n \<times> (string \<rightharpoonup> string) \<Rightarrow> ((exn + unit) \<times> 'n \<times> (string \<rightharpoonup> string)) option" where
  "categories_loop env country_code api_key output_dir [] (net, files) =
     Some (Inr (), net, files)"
| "categories_loop env country_code api_key output_dir ((category_id, category_name) # rest)
     (net, files) =
     (case get_pages env country_code api_key (Some category_id) net of
        None \<Rightarrow> None
      | Some (Inl e, net') \<Rightarrow> Some (Inl e, net', files)
      | Some (Inr rows, net') \<Rightarrow>
          (let country_data = [join_with '','' HEADER] @ rows
           in categories_loop env country_code api_key output_dir rest
                (net',
                 if length country_data > 1
                 then write_to_file env country_code country_data output_dir
                        (Some category_id) (Some category_name) files
                 else files)))"

fun get_data ::
  "'n env \<Rightarrow> string list \<Rightarrow> string \<Rightarrow> string \<Rightarrow> bool
     \<Rightarrow> 'n \<times> (string \<rightharpoonup> string) \<Rightarrow> ((exn + unit) \<times> 'n \<times> (string \<rightharpoonup> string)) option" where
  "get_data env [] api_key output_dir collect_by_category (net, files) =
     Some (Inr (), net, files)"
| "get_data env (country_code # rest) api_key output_dir collect_by_category (net, files) =
     (if collect_by_category then
        (case categories_loop env country_code api_key output_dir CATEGORIES (net, files) of
           None \<Rightarrow> None
         | Some (Inl e, st) \<Rightarrow> Some (Inl e, st)
         | Some (Inr u, st) \<Rightarrow> get_data env rest api_key output_dir collect_by_category st)
      else
        (case get_pages env country_code api_key None net of
           None \<Rightarrow> None
         | Some (Inl e, net') \<Rightarrow> Some (Inl e, net', files)
         | Some (Inr rows, net') \<Rightarrow>
             get_data env rest api_key output_dir collect_by_category
               (net',
                write_to_file env country_code ([join_with '','' HEADER] @ rows) output_dir
                  None None files)))"

text \<open>
  The exit status of the interpreter: 0 after a normal end and after \<^verbatim>\<open>sys.exit()\<close>,
  the argument after \<^verbatim>\<open>sys.exit(n)\<close>, 1 after any other uncaught exception.
\<close>

fun exit_status :: "exn + unit \<Rightarrow> int" where
  "exit_status (Inr u) = 0"
| "exit_status (Inl (SystemExit None)) = 0"
| "exit_status (Inl (SystemExit (Some n))) = n"
| "exit_status (Inl e) = 1"

text \<open>
  The main block after \<^verbatim>\<open>setup\<close> has read the key and the country codes: the exit
  status of the process with the network and the files it leaves.
\<close>

definition main ::
  "'n env \<Rightarrow> string list \<Rightarrow> string \<Rightarrow> string \<Rightarrow> bool
     \<Rightarrow> 'n \<times> (string \<rightharpoonup> string) \<Rightarrow> (int \<times> 'n \<times> (string \<rightharpoonup> string)) option" where
  "main env country_codes api_key output_dir by_category st =
     map_option (\<lambda>(r, st'). (exit_status r, st'))
       (get_data env country_codes api_key output_dir by_category st)"

section \<open>Predicates used to state the properties\<close>

fun is_str :: "pyval \<Rightarrow> bool" where
  "is_str (PyStr s) = True"
| "is_str _ = False"

fun str_list :: "pyval \<Rightarrow> bool" where
  "str_list (PyList ts) = list_all is_str ts"
| "str_list _ = False"

fun dict_with :: "((string \<times> pyval) list \<Rightarrow> bool) \<Rightarrow> pyval \<Rightarrow> bool" where
  "dict_with P (PyDict d) = P d"
| "dict_with P _ = False"

definition is_dict :: "pyval \<Rightarrow> bool" where
  "is_dict x = dict_with (\<lambda>d. True) x"

definition required :: "(pyval \<Rightarrow> bool) \<Rightarrow> (string \<times> pyval) list \<Rightarrow> string \<Rightarrow> bool" where
  "required P d k = (case map_of d k of None \<Rightarrow> False | Some v \<Rightarrow> P v)"

definition optional :: "(pyval \<Rightarrow> bool) \<Rightarrow> (string \<times> pyval) list \<Rightarrow> string \<Rightarrow> bool" where
  "optional P d k = (case map_of d k of None \<Rightarrow> True | Some v \<Rightarrow> P v)"

text \<open>
  An item of the shape the extractor reads without raising: a dict with an \<open>id\<close>, a dict
  under \<open>snippet\<close> and a dict under \<open>statistics\<close>; \<open>contentDetails\<close>, \<open>thumbnails\<close> and
  its \<open>default\<close> are dicts where present, and \<open>tags\<close> is a list of strings where present.
\<close>

definition complete_item :: "pyval \<Rightarrow> bool" where
  "complete_item video =
     dict_with (\<lambda>v.
         required (\<lambda>x. True) v ''id''
       \<and> optional is_dict v ''contentDetails''
       \<and> required (dict_with (\<lambda>s.
             optional (dict_with (\<lambda>t. optional is_dict t ''default'')) s ''thumbnails''
           \<and> optional str_list s ''tags'')) v ''snippet''
       \<and> required is_dict v ''statistics'') video"

text \<open>A field as the sanitizer leaves it: quoted, with no newline and no quote inside.\<close>

definition sanitized :: "string \<Rightarrow> bool" where
  "sanitized f =
     (2 \<le> length f \<and> hd f = CHR 0x22 \<and> last f = CHR 0x22
      \<and> CHR 0x0A \<notin> set f \<and> CHR 0x22 \<notin> set (butlast (tl f)))"

text \<open>The replies after which \<^verbatim>\<open>api_request\<close> prints the failure and returns
  \<^verbatim>\<open>None\<close>: a timeout, a transport error, a status other than 200, 429 and 403.\<close>

fun fetch_local_failure :: "http_result \<Rightarrow> bool" where
  "fetch_local_failure Timeout = True"
| "fetch_local_failure RequestError = True"
| "fetch_local_failure (Response status_code body) =
     (status_code \<noteq> 200 \<and> status_code \<noteq> 429 \<and> status_code \<noteq> 403)"



section \<open>A simulated API\<close>

text \<open>
  The network state counts the requests made; the reply to a request is the next entry of
  a script, whatever the URL, and a transport error once the script is used up.
\<close>

definition scripted :: "http_result list \<Rightarrow> nat \<Rightarrow> string \<Rightarrow> http_result \<times> nat" where
  "scripted replies n url = (if n < length replies then replies ! n else RequestError, Suc n)"

definition sim_env :: "http_result list \<Rightarrow> nat env" where
  "sim_env replies =
     \<lparr> http_get = scripted replies, today = ''2024-05-01'', disk_ok = (\<lambda>path. True),
       container_str = (\<lambda>v. ''[...]'') \<rparr>"

definition video_rated :: pyval where
  "video_rated = PyDict
     [(''id'', PyStr ''v1''),
      (''snippet'', PyDict [(''title'', PyStr ''One''), (''tags'', PyList [PyStr ''a'', PyStr ''b''])]),
      (''statistics'', PyDict [(''viewCount'', PyStr ''10''), (''likeCount'', PyStr ''3''),
                               (''commentCount'', PyStr ''2'')])]"

definition video_unrated :: pyval where
  "video_unrated = PyDict
     [(''id'', PyStr ''v2''),
      (''snippet'', PyDict [(''title'', PyStr ''Two''), (''tags'', PyList [])]),
      (''statistics'', PyDict [(''viewCount'', PyStr ''7'')])]"

definition video_removed :: pyval where
  "video_removed = PyDict [(''id'', PyStr ''v3''), (''snippet'', PyDict [])]"


definition page_one :: pyval where
  "page_one = PyDict [(''nextPageToken'', PyStr ''T2''), (''items'', PyList [video_rated])]"

definition page_two :: pyval where
  "page_two = PyDict [(''nextPageToken'', PyStr ''T3''), (''items'', PyList [video_removed, video_unrated])]"

definition page_three :: pyval where
  "page_three = PyDict [(''items'', PyList [video_rated])]"

text \<open>A row of the output that is the line of a given item.\<close>

definition row_of :: "'n env \<Rightarrow> pyval \<Rightarrow> string \<Rightarrow> bool" where
  "row_of env video row \<longleftrightarrow>
     (\<exists>line. video_line env video = Inr line \<and> row = join_with '','' line
        \<and> length line = length HEADER \<and> (\<forall>f\<in>set line. sanitized f))"

section \<open>Basic facts\<close>

lemma bind_eq_Inr: "(bind m f = Inr y) = (\<exists>x. m = Inr x \<and> f x = Inr y)"
  by (cases m) (simp_all add: bind_def)

lemma bind_Inr: "bind (Inr x) f = f x"
  by (simp add: bind_def)


lemma bind_get_dict:
  "bind (py_get (PyDict d) k dflt) f = f (case map_of d k of None \<Rightarrow> dflt | Some v \<Rightarrow> v)"
  by (simp add: bind_Inr)

lemma py_in_dict: "py_in k (PyDict d) = Inr (map_of d k \<noteq> None)"
  by (simp add: map_of_eq_None_iff image_iff)

lemma py_item_Inr: "py_item x k = Inr v \<Longrightarrow> \<exists>d. x = PyDict d \<and> map_of d k = Some v"
  by (cases x) (auto split: option.splits)

lemma py_get_Inr: "py_get x k dflt = Inr v \<Longrightarrow> \<exists>d. x = PyDict d"
  by (cases x) auto

lemma dict_withE: "dict_with P x \<Longrightarrow> (\<And>d. x = PyDict d \<Longrightarrow> P d \<Longrightarrow> R) \<Longrightarrow> R"
  by (cases x) simp_all

lemma requiredE: "required P d k \<Longrightarrow> (\<And>v. map_of d k = Some v \<Longrightarrow> P v \<Longrightarrow> R) \<Longrightarrow> R"
  by (cases "map_of d k") (simp_all add: required_def)

lemma optional_get:
  "optional (dict_with P) d k \<Longrightarrow> P [] \<Longrightarrow>
   \<exists>c. py_get (PyDict d) k (PyDict []) = Inr (PyDict c) \<and> P c"
  by (cases "map_of d k") (auto simp: optional_def elim: dict_withE)

lemma optional_get_dict:
  "optional is_dict d k \<Longrightarrow> \<exists>c. py_get (PyDict d) k (PyDict []) = Inr (PyDict c)"
  by (cases "map_of d k") (auto simp: optional_def is_dict_def elim: dict_withE)

subsection \<open>The sanitizer\<close>

lemma sanitize_body:
  "fold remove_char UNSAFE_CHARACTERS s = filter (\<lambda>c. c \<noteq> CHR 0x0A \<and> c \<noteq> CHR 0x22) s"
  by (simp add: UNSAFE_CHARACTERS_def remove_char_def conj_commute)

lemma prepare_feature_eq:
  "prepare_feature env x =
     CHR 0x22 # filter (\<lambda>c. c \<noteq> CHR 0x0A \<and> c \<noteq> CHR 0x22) (py_str env x) @ [CHR 0x22]"
  by (simp add: prepare_feature_def sanitize_body)

lemma prepare_feature_again:
  "prepare_feature env (PyStr (prepare_feature env x)) = prepare_feature env x"
  by (simp add: prepare_feature_eq)

lemma sanitized_prepare_feature: "sanitized (prepare_feature env x)"
  by (simp add: sanitized_def prepare_feature_eq butlast_append)

lemma prepare_feature_flags:
  "prepare_feature env (PyBool a) = prepare_feature env (PyBool b) \<longleftrightarrow> a = b"
  by (simp add: prepare_feature_eq)

subsection \<open>The tags\<close>

lemma str_items_strings: "str_items (map PyStr ss) = Inr ss"
  by (induction ss) (simp_all add: bind_Inr)

lemma str_items_all: "list_all is_str ts \<Longrightarrow> \<exists>ss. str_items ts = Inr ss"
proof (induction ts)
  case Nil
  then show ?case by simp
next
  case (Cons t ts)
  then obtain s where "t = PyStr s" by (cases t) simp_all
  with Cons show ?case by (auto simp: bind_Inr)
qed

lemma get_tags_Inr: "get_tags env tgl = Inr tags \<Longrightarrow> prepare_feature env (PyStr tags) = tags"
  by (auto simp: get_tags_def bind_eq_Inr prepare_feature_again)

lemma get_tags_empty: "get_tags env (PyList []) = Inr (prepare_feature env (PyStr ''[none]''))"
  by (simp add: get_tags_def py_join_def bind_Inr)

lemma get_tags_strings:
  "ss \<noteq> [] \<Longrightarrow>
   get_tags env (PyList (map PyStr ss)) = Inr (prepare_feature env (PyStr (join_with ''|'' ss)))"
  by (simp add: get_tags_def py_join_def bind_Inr str_items_strings)

lemma get_tags_list: "list_all is_str ts \<Longrightarrow> \<exists>tags. get_tags env (PyList ts) = Inr tags"
  using str_items_all[of ts]
  by (cases ts) (auto simp: get_tags_def py_join_def bind_Inr)

lemma optional_tags:
  assumes "optional str_list s ''tags''"
  shows "\<exists>tgl tags. py_get (PyDict s) ''tags'' (PyList []) = Inr tgl \<and> get_tags env tgl = Inr tags"
proof (cases "map_of s ''tags''")
  case None
  then show ?thesis using get_tags_list[of "[]" env] by simp
next
  case (Some tgl)
  with assms have "str_list tgl" by (simp add: optional_def)
  then obtain ts where "tgl = PyList ts" "list_all is_str ts" by (cases tgl) simp_all
  with Some show ?thesis using get_tags_list[of ts env] by simp
qed

subsection \<open>One line\<close>

lemma snippet_features_dict:
  "\<exists>fs. snippet_features env (PyDict s) names = Inr fs \<and> length fs = length names
       \<and> (\<forall>f\<in>set fs. sanitized f)"
  by (induction names) (auto simp: bind_Inr sanitized_prepare_feature)

lemma snippet_features_5:
  "snippet_features env snippet SNIPPET_FEATURES = Inr fs \<Longrightarrow>
   \<exists>a b c d e. fs = map (prepare_feature env) [a, b, c, d, e]"
  by (auto simp: SNIPPET_FEATURES_def bind_eq_Inr)

lemma like_counts_dict:
  "like_counts (PyDict st) =
     (case map_of st ''likeCount'' of
        None \<Rightarrow> Inr (True, PyInt 0, PyInt 0)
      | Some likes \<Rightarrow>
          Inr (False, likes, case map_of st ''dislikeCount'' of None \<Rightarrow> PyInt 0 | Some d \<Rightarrow> d))"
  by (simp add: like_counts_def py_in_dict bind_Inr del: py_in.simps split: option.splits)

lemma comment_counts_dict:
  "comment_counts (PyDict st) =
     (case map_of st ''commentCount'' of
        None \<Rightarrow> Inr (True, PyInt 0)
      | Some n \<Rightarrow> Inr (False, n))"
  by (simp add: comment_counts_def py_in_dict bind_Inr del: py_in.simps split: option.splits)

lemma video_line_inv:
  assumes "video_line env video = Inr line"
  shows "\<exists>vid snippet statistics tags_list tags a b c d e view_count rd likes dislikes cdis
            comment_count thumbnail_link description duration.
     py_item video ''id'' = Inr vid \<and>
     py_item video ''snippet'' = Inr snippet \<and>
     py_item video ''statistics'' = Inr statistics \<and>
     py_get snippet ''tags'' (PyList []) = Inr tags_list \<and>
     get_tags env tags_list = Inr tags \<and>
     py_get statistics ''viewCount'' (PyInt 0) = Inr view_count \<and>
     like_counts statistics = Inr (rd, likes, dislikes) \<and>
     comment_counts statistics = Inr (cdis, comment_count) \<and>
     line = map (prepare_feature env)
       [vid, a, b, c, d, e, PyStr (today env), PyStr tags, view_count, likes, dislikes,
        comment_count, thumbnail_link, PyBool cdis, PyBool rd, description, duration]"
  using assms unfolding video_line_def
  apply (clarsimp simp: bind_eq_Inr)
  apply (drule snippet_features_5)
  apply clarsimp
  apply blast
  done

lemma complete_item_line:
  assumes "complete_item video"
  shows "\<exists>line. video_line env video = Inr line \<and> length line = length HEADER
           \<and> (\<forall>f\<in>set line. sanitized f)"
proof -
  from assms obtain v where video: "video = PyDict v"
    and rid: "required (\<lambda>x. True) v ''id''"
    and ocd: "optional is_dict v ''contentDetails''"
    and rsn: "required (dict_with (\<lambda>s.
             optional (dict_with (\<lambda>t. optional is_dict t ''default'')) s ''thumbnails''
           \<and> optional str_list s ''tags'')) v ''snippet''"
    and rst: "required is_dict v ''statistics''"
    unfolding complete_item_def by (auto elim: dict_withE)
  from rid obtain vid where vid: "py_item video ''id'' = Inr vid"
    by (auto simp: video elim: requiredE)
  from rsn obtain s where sn: "py_item video ''snippet'' = Inr (PyDict s)"
    and oth: "optional (dict_with (\<lambda>t. optional is_dict t ''default'')) s ''thumbnails''"
    and otg: "optional str_list s ''tags''"
    by (auto simp: video elim!: requiredE dict_withE)
  from rst obtain st where st: "py_item video ''statistics'' = Inr (PyDict st)"
    by (auto simp: video is_dict_def elim!: requiredE dict_withE)
  from ocd obtain c where c: "py_get video ''contentDetails'' (PyDict []) = Inr (PyDict c)"
    unfolding video using optional_get_dict by blast
  have "optional is_dict [] ''default''" by (simp add: optional_def)
  with oth obtain t where t: "py_get (PyDict s) ''thumbnails'' (PyDict []) = Inr (PyDict t)"
    and odf: "optional is_dict t ''default''"
    using optional_get[of "\<lambda>t. optional is_dict t ''default''" s "''thumbnails''"]
    by blast
  from odf obtain d where d: "py_get (PyDict t) ''default'' (PyDict []) = Inr (PyDict d)"
    using optional_get_dict by blast
  from otg obtain tgl tags where tgl: "py_get (PyDict s) ''tags'' (PyList []) = Inr tgl"
    and tags: "get_tags env tgl = Inr tags"
    using optional_tags by blast
  obtain fs where fs: "snippet_features env (PyDict s) SNIPPET_FEATURES = Inr fs"
    "length fs = length SNIPPET_FEATURES" "\<forall>f\<in>set fs. sanitized f"
    using snippet_features_dict by blast
  obtain rd likes dislikes where lc: "like_counts (PyDict st) = Inr (rd, likes, dislikes)"
    by (cases "map_of st ''likeCount''") (auto simp: like_counts_dict)
  obtain cdis n where cc: "comment_counts (PyDict st) = Inr (cdis, n)"
    by (cases "map_of st ''commentCount''") (auto simp: comment_counts_dict)
  show ?thesis
    unfolding video_line_def
    using fs
    by (auto simp: vid sn st c t d tgl tags lc cc bind_Inr bind_get_dict HEADER_def
        sanitized_prepare_feature simp del: py_get.simps py_item.simps)
qed

subsection \<open>The loop over the items\<close>

lemma videos_loop_skip:
  "py_in ''statistics'' video = Inr False \<Longrightarrow>
   videos_loop env lines (video # rest) = videos_loop env lines rest"
  by (simp add: bind_Inr)

lemma videos_loop_line:
  "py_in ''statistics'' video = Inr True \<Longrightarrow> video_line env video = Inr line \<Longrightarrow>
   videos_loop env lines (video # rest) = videos_loop env (lines @ [join_with '','' line]) rest"
  by (simp add: bind_Inr)

lemma videos_loop_rows:
  assumes "\<forall>video\<in>set items.
             is_dict video \<and> (py_in ''statistics'' video = Inr True \<longrightarrow> complete_item video)"
  shows "\<exists>rows. videos_loop env lines items = Inr (lines @ rows)
           \<and> list_all2 (row_of env) (filter (\<lambda>video. py_in ''statistics'' video = Inr True) items) rows"
  using assms
proof (induction items arbitrary: lines)
  case Nil
  then show ?case by simp
next
  case (Cons video rest)
  then obtain d where d: "video = PyDict d"
    by (auto simp: is_dict_def elim: dict_withE)
  show ?case
  proof (cases "py_in ''statistics'' video = Inr True")
    case True
    with Cons.prems have "complete_item video" by simp
    then obtain line where line: "video_line env video = Inr line"
      "length line = length HEADER" "\<forall>f\<in>set line. sanitized f"
      using complete_item_line by blast
    from Cons.IH[of "lines @ [join_with '','' line]"] Cons.prems
    obtain rows where rows: "videos_loop env (lines @ [join_with '','' line]) rest
        = Inr ((lines @ [join_with '','' line]) @ rows)"
      "list_all2 (row_of env) (filter (\<lambda>video. py_in ''statistics'' video = Inr True) rest) rows"
      by auto
    have "row_of env video (join_with '','' line)"
      unfolding row_of_def using line by blast
    with rows True line(1) show ?thesis
      by (intro exI[of _ "join_with '','' line # rows"]) (simp add: videos_loop_line del: videos_loop.simps)
  next
    case False
    then have skip: "py_in ''statistics'' video = Inr False"
      by (simp add: d)
    from Cons.IH[of lines] Cons.prems
    obtain rows where "videos_loop env lines rest = Inr (lines @ rows)"
      "list_all2 (row_of env) (filter (\<lambda>video. py_in ''statistics'' video = Inr True) rest) rows"
      by auto
    with False skip show ?thesis
      by (intro exI[of _ rows]) (simp add: videos_loop_skip del: videos_loop.simps)
  qed
qed

lemma video_line_emitted:
  assumes "video_line env video = Inr line"
  shows "get_videos env (PyList [video]) = Inr [join_with '','' line]"
proof -
  from video_line_inv[OF assms] obtain st where "py_item video ''statistics'' = Inr st"
    by blast
  then obtain d where "video = PyDict d" "map_of d ''statistics'' = Some st"
    using py_item_Inr by blast
  then have "py_in ''statistics'' video = Inr True"
    by (simp add: py_in_dict del: py_in.simps)
  with assms show ?thesis
    by (simp add: get_videos_def bind_Inr videos_loop_line del: videos_loop.simps(2))
qed


section \<open>Sanitizer\<close>



text \<open>
  C10. Sanitizing the output of the sanitizer gives that output again; and in a line the
  extractor emits, the field under \<open>tags\<close>, which is the sanitized result of \<open>get_tags\<close>,
  is that result unchanged.
\<close>

theorem prepare_feature_idempotent:
  "prepare_feature env (PyStr (prepare_feature env x)) = prepare_feature env x
   \<and> (video_line env video = Inr line \<longrightarrow>
        (\<exists>snippet tags_list tags.
            py_item video ''snippet'' = Inr snippet
          \<and> py_get snippet ''tags'' (PyList []) = Inr tags_list
          \<and> get_tags env tags_list = Inr tags
          \<and> field ''tags'' line = Some (prepare_feature env (PyStr tags))
          \<and> prepare_feature env (PyStr tags) = tags))"
proof (intro conjI impI)
  show "prepare_feature env (PyStr (prepare_feature env x)) = prepare_feature env x"
    by (rule prepare_feature_again)
next
  assume "video_line env video = Inr line"
  from video_line_inv[OF this] obtain snippet tags_list tags where
    s: "py_item video ''snippet'' = Inr snippet"
    and t: "py_get snippet ''tags'' (PyList []) = Inr tags_list"
    and g: "get_tags env tags_list = Inr tags"
    and l: "field ''tags'' line = Some (prepare_feature env (PyStr tags))"
    by (auto simp: field_def HEADER_def SNIPPET_FEATURES_def)
  with get_tags_Inr[OF g] show "\<exists>snippet tags_list tags.
            py_item video ''snippet'' = Inr snippet
          \<and> py_get snippet ''tags'' (PyList []) = Inr tags_list
          \<and> get_tags env tags_list = Inr tags
          \<and> field ''tags'' line = Some (prepare_feature env (PyStr tags))
          \<and> prepare_feature env (PyStr tags) = tags"
    by blast
qed


lemma complete_samples:
  "complete_item video_rated" "complete_item video_unrated"
  by (simp_all add: complete_item_def video_rated_def video_unrated_def required_def
      optional_def is_dict_def)

theorem prepare_feature_idempotent_witness:
  "prepare_feature (sim_env []) (PyStr (prepare_feature (sim_env []) (PyInt 5)))
     = prepare_feature (sim_env []) (PyInt 5)
   \<and> (\<exists>line tags. video_line (sim_env []) video_rated = Inr line
         \<and> field ''tags'' line = Some tags
         \<and> prepare_feature (sim_env []) (PyStr tags) = tags)"
proof -
  obtain line where line: "video_line (sim_env []) video_rated = Inr line"
    using complete_item_line[OF complete_samples(1)] by blast
  from prepare_feature_idempotent[of "sim_env []" "PyInt 5" video_rated line] line
  show ?thesis by auto
qed

section \<open>Record extractor\<close>




text \<open>
  C3. In a line the extractor emits, the field under \<open>ratings_disabled\<close> is the sanitized
  \<open>True\<close> exactly when the statistics dict has no key \<open>likeCount\<close>, and then the fields
  under \<open>likes\<close> and \<open>dislikes\<close> are the sanitized \<open>0\<close>, whatever else the item holds.
\<close>

theorem ratings_disabled_iff:
  assumes "video_line env video = Inr line"
  shows "get_videos env (PyList [video]) = Inr [join_with '','' line]
     \<and> (\<exists>st. py_item video ''statistics'' = Inr (PyDict st)
     \<and> ((field ''ratings_disabled'' line = Some (prepare_feature env (PyBool True)))
          = (''likeCount'' \<notin> set (map fst st)))
     \<and> (field ''ratings_disabled'' line = Some (prepare_feature env (PyBool True)) \<longrightarrow>
          field ''likes'' line = Some (prepare_feature env (PyInt 0))
        \<and> field ''dislikes'' line = Some (prepare_feature env (PyInt 0))))"
proof -
  from video_line_inv[OF assms] obtain statistics rd likes dislikes view_count where
    s: "py_item video ''statistics'' = Inr statistics"
    and v: "py_get statistics ''viewCount'' (PyInt 0) = Inr view_count"
    and lc: "like_counts statistics = Inr (rd, likes, dislikes)"
    and f: "field ''ratings_disabled'' line = Some (prepare_feature env (PyBool rd))"
       "field ''likes'' line = Some (prepare_feature env likes)"
       "field ''dislikes'' line = Some (prepare_feature env dislikes)"
    by (auto simp: field_def HEADER_def SNIPPET_FEATURES_def)
  from v obtain st where st: "statistics = PyDict st"
    using py_get_Inr by blast
  have k: "(''likeCount'' \<notin> set (map fst st)) = (map_of st ''likeCount'' = None)"
    by (simp add: map_of_eq_None_iff)
  from lc have "rd = (map_of st ''likeCount'' = None)"
    "rd \<longrightarrow> likes = PyInt 0 \<and> dislikes = PyInt 0"
    by (auto simp: st like_counts_dict split: option.splits)
  with s f k video_line_emitted[OF assms] show ?thesis
    unfolding st by (auto simp: prepare_feature_flags)
qed

theorem ratings_disabled_iff_witness:
  "\<exists>line. video_line (sim_env []) video_unrated = Inr line
     \<and> py_item video_unrated ''statistics'' = Inr (PyDict [(''viewCount'', PyStr ''7'')])
     \<and> field ''ratings_disabled'' line = Some (prepare_feature (sim_env []) (PyBool True))
     \<and> field ''likes'' line = Some (prepare_feature (sim_env []) (PyInt 0))
     \<and> field ''dislikes'' line = Some (prepare_feature (sim_env []) (PyInt 0))"
proof -
  obtain line where line: "video_line (sim_env []) video_unrated = Inr line"
    using complete_item_line[OF complete_samples(2)] by blast
  have "py_item video_unrated ''statistics'' = Inr (PyDict [(''viewCount'', PyStr ''7'')])"
    by (simp add: video_unrated_def)
  with ratings_disabled_iff[OF line] line show ?thesis by auto
qed

text \<open>
  C4. In a line the extractor emits, the field under \<open>comments_disabled\<close> is the sanitized
  \<open>True\<close> exactly when the statistics dict has no key \<open>commentCount\<close>, and then the field
  under \<open>comment_count\<close> is the sanitized \<open>0\<close>.
\<close>

theorem comments_disabled_iff:
  assumes "video_line env video = Inr line"
  shows "get_videos env (PyList [video]) = Inr [join_with '','' line]
     \<and> (\<exists>st. py_item video ''statistics'' = Inr (PyDict st)
     \<and> ((field ''comments_disabled'' line = Some (prepare_feature env (PyBool True)))
          = (''commentCount'' \<notin> set (map fst st)))
     \<and> (field ''comments_disabled'' line = Some (prepare_feature env (PyBool True)) \<longrightarrow>
          field ''comment_count'' line = Some (prepare_feature env (PyInt 0))))"
proof -
  from video_line_inv[OF assms] obtain statistics cdis comment_count view_count where
    s: "py_item video ''statistics'' = Inr statistics"
    and v: "py_get statistics ''viewCount'' (PyInt 0) = Inr view_count"
    and cc: "comment_counts statistics = Inr (cdis, comment_count)"
    and f: "field ''comments_disabled'' line = Some (prepare_feature env (PyBool cdis))"
       "field ''comment_count'' line = Some (prepare_feature env comment_count)"
    by (auto simp: field_def HEADER_def SNIPPET_FEATURES_def)
  from v obtain st where st: "statistics = PyDict st"
    using py_get_Inr by blast
  have k: "(''commentCount'' \<notin> set (map fst st)) = (map_of st ''commentCount'' = None)"
    by (simp add: map_of_eq_None_iff)
  from cc have "cdis = (map_of st ''commentCount'' = None)" "cdis \<longrightarrow> comment_count = PyInt 0"
    by (auto simp: st comment_counts_dict split: option.splits)
  with s f k video_line_emitted[OF assms] show ?thesis
    unfolding st by (auto simp: prepare_feature_flags)
qed

theorem comments_disabled_iff_witness:
  "\<exists>line. video_line (sim_env []) video_unrated = Inr line
     \<and> py_item video_unrated ''statistics'' = Inr (PyDict [(''viewCount'', PyStr ''7'')])
     \<and> field ''comments_disabled'' line = Some (prepare_feature (sim_env []) (PyBool True))
     \<and> field ''comment_count'' line = Some (prepare_feature (sim_env []) (PyInt 0))"
proof -
  obtain line where line: "video_line (sim_env []) video_unrated = Inr line"
    using complete_item_line[OF complete_samples(2)] by blast
  have "py_item video_unrated ''statistics'' = Inr (PyDict [(''viewCount'', PyStr ''7'')])"
    by (simp add: video_unrated_def)
  with comments_disabled_iff[OF line] line show ?thesis by auto
qed

text \<open>
  C5. In a line the extractor emits, the field under \<open>tags\<close> is the sanitized \<open>[none]\<close>
  when the tag list of the snippet is empty (or there is none), and the sanitized \<open>a|b\<close>
  when the tag list is \<open>["a", "b"]\<close>.
\<close>

lemma get_tags_ab:
  "get_tags env (PyList [PyStr ''a'', PyStr ''b'']) = Inr (prepare_feature env (PyStr ''a|b''))"
  by (simp add: get_tags_def py_join_def bind_Inr)

theorem tags_field:
  assumes "video_line env video = Inr line"
  shows "get_videos env (PyList [video]) = Inr [join_with '','' line]
     \<and> (\<exists>snippet tags_list.
       py_item video ''snippet'' = Inr snippet
     \<and> py_get snippet ''tags'' (PyList []) = Inr tags_list
     \<and> (tags_list = PyList [] \<longrightarrow>
          field ''tags'' line = Some (prepare_feature env (PyStr ''[none]'')))
     \<and> (tags_list = PyList [PyStr ''a'', PyStr ''b''] \<longrightarrow>
          field ''tags'' line = Some (prepare_feature env (PyStr ''a|b''))))"
proof -
  from video_line_inv[OF assms] obtain snippet tags_list tags where
    s: "py_item video ''snippet'' = Inr snippet"
    and t: "py_get snippet ''tags'' (PyList []) = Inr tags_list"
    and g: "get_tags env tags_list = Inr tags"
    and f: "field ''tags'' line = Some (prepare_feature env (PyStr tags))"
    by (auto simp: field_def HEADER_def SNIPPET_FEATURES_def)
  have f': "field ''tags'' line = Some tags"
    using f get_tags_Inr[OF g] by simp
  have e: "tags_list = PyList [] \<longrightarrow> field ''tags'' line = Some (prepare_feature env (PyStr ''[none]''))"
  proof
    assume "tags_list = PyList []"
    with g have "tags = prepare_feature env (PyStr ''[none]'')"
      by (simp only: get_tags_empty sum.inject)
    with f' show "field ''tags'' line = Some (prepare_feature env (PyStr ''[none]''))"
      by (simp only:)
  qed
  have ab: "tags_list = PyList [PyStr ''a'', PyStr ''b''] \<longrightarrow>
            field ''tags'' line = Some (prepare_feature env (PyStr ''a|b''))"
  proof
    assume "tags_list = PyList [PyStr ''a'', PyStr ''b'']"
    with g have "tags = prepare_feature env (PyStr ''a|b'')"
      by (simp only: get_tags_ab sum.inject)
    with f' show "field ''tags'' line = Some (prepare_feature env (PyStr ''a|b''))"
      by (simp only:)
  qed
  from s t e ab video_line_emitted[OF assms] show ?thesis by (intro exI conjI)
qed

theorem tags_field_witness:
  "(\<exists>line. video_line (sim_env []) video_unrated = Inr line
      \<and> field ''tags'' line = Some (prepare_feature (sim_env []) (PyStr ''[none]'')))
   \<and> (\<exists>line. video_line (sim_env []) video_rated = Inr line
      \<and> field ''tags'' line = Some (prepare_feature (sim_env []) (PyStr ''a|b'')))"
proof -
  obtain l1 where l1: "video_line (sim_env []) video_unrated = Inr l1"
    using complete_item_line[OF complete_samples(2)] by blast
  obtain l2 where l2: "video_line (sim_env []) video_rated = Inr l2"
    using complete_item_line[OF complete_samples(1)] by blast
  have "field ''tags'' l1 = Some (prepare_feature (sim_env []) (PyStr ''[none]''))"
    using tags_field[OF l1] by (simp add: video_unrated_def)
  moreover have "field ''tags'' l2 = Some (prepare_feature (sim_env []) (PyStr ''a|b''))"
    using tags_field[OF l2] by (simp add: video_rated_def)
  ultimately show ?thesis using l1 l2 by blast
qed

section \<open>Facts about the page fetcher and the pagination loop\<close>

lemma api_request_200:
  "http_get env net (request_url page_token country_code api_key category_id)
     = (Response 200 body, net') \<Longrightarrow>
   api_request env page_token country_code api_key category_id net = (Inr body, net')"
  by (simp add: api_request_def)

lemma api_request_failure:
  "http_get env net (request_url page_token country_code api_key category_id) = (reply, net') \<Longrightarrow>
   fetch_local_failure reply \<Longrightarrow>
   api_request env page_token country_code api_key category_id net = (Inr PyNone, net')"
  by (cases reply) (simp_all add: api_request_def)

lemma api_request_429:
  "http_get env net (request_url page_token country_code api_key category_id)
     = (Response 429 body, net') \<Longrightarrow>
   api_request env page_token country_code api_key category_id net
     = (Inl (SystemExit None), net')"
  by (simp add: api_request_def)

lemma api_request_403:
  "http_get env net (request_url page_token country_code api_key category_id)
     = (Response 403 body, net') \<Longrightarrow>
   api_request env page_token country_code api_key category_id net
     = (Inl (SystemExit (Some 1)), net')"
  by (simp add: api_request_def)

lemma pages_loop_done:
  "pages_loop env country_code api_key category_id country_data None net
     = Some (Inr country_data, net)"
  by (subst pages_loop.simps) simp

lemma pages_loop_raise:
  "api_request env page_token country_code api_key category_id net = (Inl e, net') \<Longrightarrow>
   pages_loop env country_code api_key category_id country_data (Some page_token) net
     = Some (Inl e, net')"
  by (subst pages_loop.simps) simp

lemma pages_loop_break:
  "api_request env page_token country_code api_key category_id net = (Inr PyNone, net') \<Longrightarrow>
   pages_loop env country_code api_key category_id country_data (Some page_token) net
     = Some (Inr country_data, net')"
  by (subst pages_loop.simps) simp

lemma pages_loop_page:
  "api_request env page_token country_code api_key category_id net
     = (Inr video_data_page, net') \<Longrightarrow>
   py_get video_data_page ''nextPageToken'' PyNone = Inr token \<Longrightarrow>
   page_rows env video_data_page = Inr rows \<Longrightarrow>
   pages_loop env country_code api_key category_id country_data (Some page_token) net
     = pages_loop env country_code api_key category_id (country_data @ rows)
         (if token \<noteq> PyNone then Some (''pageToken='' @ py_str env token @ ''&'') else None)
         net'"
  by (subst pages_loop.simps) auto




subsection \<open>The simulated API on the sample pages\<close>

lemma sample_dicts:
  "is_dict video_rated" "is_dict video_unrated" "is_dict video_removed"
  "py_in ''statistics'' video_rated = Inr True"
  "py_in ''statistics'' video_unrated = Inr True"
  "py_in ''statistics'' video_removed = Inr False"
  by (simp_all add: video_rated_def video_unrated_def video_removed_def is_dict_def)

lemma sample_page_rows:
  "\<exists>row. page_rows env page_one = Inr [row]"
  "\<exists>row. page_rows env page_two = Inr [row]"
  "\<exists>row. page_rows env page_three = Inr [row]"
proof -
  have a: "\<forall>video\<in>set [video_rated].
          is_dict video \<and> (py_in ''statistics'' video = Inr True \<longrightarrow> complete_item video)"
    using sample_dicts complete_samples by simp
  have b: "\<forall>video\<in>set [video_removed, video_unrated].
          is_dict video \<and> (py_in ''statistics'' video = Inr True \<longrightarrow> complete_item video)"
    using sample_dicts complete_samples by simp
  from videos_loop_rows[OF a, of env "[]"] sample_dicts
  show "\<exists>row. page_rows env page_one = Inr [row]"
    by (auto simp: page_rows_def page_one_def get_videos_def bind_Inr list_all2_Cons1
        simp del: videos_loop.simps)
  from videos_loop_rows[OF a, of env "[]"] sample_dicts
  show "\<exists>row. page_rows env page_three = Inr [row]"
    by (auto simp: page_rows_def page_three_def get_videos_def bind_Inr list_all2_Cons1
        simp del: videos_loop.simps)
  from videos_loop_rows[OF b, of env "[]"] sample_dicts
  show "\<exists>row. page_rows env page_two = Inr [row]"
    by (auto simp: page_rows_def page_two_def get_videos_def bind_Inr list_all2_Cons1
        simp del: videos_loop.simps)
qed

lemma sample_tokens:
  "py_get page_one ''nextPageToken'' PyNone = Inr (PyStr ''T2'')"
  "py_get page_two ''nextPageToken'' PyNone = Inr (PyStr ''T3'')"
  "py_get page_three ''nextPageToken'' PyNone = Inr PyNone"
  by (simp_all add: page_one_def page_two_def page_three_def)

lemma sim_http_get:
  "n < length replies \<Longrightarrow> http_get (sim_env replies) n url = (replies ! n, Suc n)"
  "\<not> n < length replies \<Longrightarrow> http_get (sim_env replies) n url = (RequestError, Suc n)"
  by (simp_all add: sim_env_def scripted_def)

section \<open>Pagination driver\<close>

text \<open>
  C2. When the first request is answered with status 200 by a page that carries a token,
  the request with that token by a second page that carries a token, the request with
  that one by a third page without token (absent or \<open>None\<close>), and the rows of each page
  are extracted, \<open>get_pages\<close> returns the rows of page 1, then page 2, then page 3, and
  leaves the network as the third request left it: no fourth request is made.
\<close>

theorem get_pages_three_pages:
  assumes "http_get env net0 (request_url ''&'' country_code api_key category_id)
             = (Response 200 page1, net1)"
    and "py_get page1 ''nextPageToken'' PyNone = Inr token2" and "token2 \<noteq> PyNone"
    and "http_get env net1
           (request_url (''pageToken='' @ py_str env token2 @ ''&'') country_code api_key category_id)
             = (Response 200 page2, net2)"
    and "py_get page2 ''nextPageToken'' PyNone = Inr token3" and "token3 \<noteq> PyNone"
    and "http_get env net2
           (request_url (''pageToken='' @ py_str env token3 @ ''&'') country_code api_key category_id)
             = (Response 200 page3, net3)"
    and "py_get page3 ''nextPageToken'' PyNone = Inr PyNone"
    and "page_rows env page1 = Inr rows1"
    and "page_rows env page2 = Inr rows2"
    and "page_rows env page3 = Inr rows3"
  shows "get_pages env country_code api_key category_id net0
           = Some (Inr (rows1 @ rows2 @ rows3), net3)"
proof -
  have "get_pages env country_code api_key category_id net0
      = pages_loop env country_code api_key category_id ([] @ rows1)
          (Some (''pageToken='' @ py_str env token2 @ ''&'')) net1"
    unfolding get_pages_def
    using pages_loop_page[OF api_request_200[OF assms(1)] assms(2) assms(9), of "[]"] assms(3)
    by simp
  also have "\<dots> = pages_loop env country_code api_key category_id (([] @ rows1) @ rows2)
          (Some (''pageToken='' @ py_str env token3 @ ''&'')) net2"
    using pages_loop_page[OF api_request_200[OF assms(4)] assms(5) assms(10), of "[] @ rows1"]
      assms(6)
    by simp
  also have "\<dots> = pages_loop env country_code api_key category_id
          ((([] @ rows1) @ rows2) @ rows3) None net3"
    using pages_loop_page[OF api_request_200[OF assms(7)] assms(8) assms(11),
        of "([] @ rows1) @ rows2"]
    by simp
  also have "\<dots> = Some (Inr (rows1 @ rows2 @ rows3), net3)"
    by (simp add: pages_loop_done)
  finally show ?thesis .
qed

theorem get_pages_three_pages_witness:
  "\<exists>row1 row2 row3.
      page_rows (sim_env [Response 200 page_one, Response 200 page_two, Response 200 page_three])
        page_one = Inr [row1]
    \<and> page_rows (sim_env [Response 200 page_one, Response 200 page_two, Response 200 page_three])
        page_two = Inr [row2]
    \<and> page_rows (sim_env [Response 200 page_one, Response 200 page_two, Response 200 page_three])
        page_three = Inr [row3]
    \<and> get_pages (sim_env [Response 200 page_one, Response 200 page_two, Response 200 page_three])
        ''US'' ''KEY'' None 0 = Some (Inr [row1, row2, row3], 3)"
proof -
  let ?E = "sim_env [Response 200 page_one, Response 200 page_two, Response 200 page_three]"
  obtain row1 row2 row3 where r: "page_rows ?E page_one = Inr [row1]"
    "page_rows ?E page_two = Inr [row2]" "page_rows ?E page_three = Inr [row3]"
    using sample_page_rows[of ?E] by blast
  have g1: "http_get ?E 0 (request_url ''&'' ''US'' ''KEY'' None) = (Response 200 page_one, 1)"
    by (simp add: sim_http_get)
  have g2: "http_get ?E 1 (request_url (''pageToken='' @ py_str ?E (PyStr ''T2'') @ ''&'')
      ''US'' ''KEY'' None) = (Response 200 page_two, 2)"
    by (simp add: sim_http_get)
  have g3: "http_get ?E 2 (request_url (''pageToken='' @ py_str ?E (PyStr ''T3'') @ ''&'')
      ''US'' ''KEY'' None) = (Response 200 page_three, 3)"
    by (simp add: sim_http_get)
  have "get_pages ?E ''US'' ''KEY'' None 0 = Some (Inr ([row1] @ [row2] @ [row3]), 3)"
    by (rule get_pages_three_pages[OF g1 sample_tokens(1) _ g2 sample_tokens(2) _ g3
          sample_tokens(3) r]) simp_all
  with r show ?thesis by simp
qed




section \<open>Orchestrator\<close>

text \<open>
  C9. When the pagination of a country under a category returns no rows, the orchestrator
  goes on to the next category with the files unchanged: no file is written for the pair.
  When the pagination of a country without categories returns no rows, the orchestrator
  still calls the writer, with the header as the only row; where the file system accepts
  the file, it then holds exactly the header line.
\<close>

theorem no_rows_files:
  "(get_pages env country_code api_key (Some category_id) net = Some (Inr [], net1) \<longrightarrow>
      categories_loop env country_code api_key output_dir
          ((category_id, category_name) # categories) (net, files)
        = categories_loop env country_code api_key output_dir categories (net1, files))
   \<and> (get_pages env country_code api_key None net = Some (Inr [], net2) \<longrightarrow>
      get_data env (country_code # countries) api_key output_dir False (net, files)
        = get_data env countries api_key output_dir False
            (net2, write_to_file env country_code [join_with '','' HEADER] output_dir
                     None None files))
   \<and> (disk_ok env (output_filename env country_code output_dir None) \<longrightarrow>
      write_to_file env country_code [join_with '','' HEADER] output_dir None None files
        = files(output_filename env country_code output_dir None
                  \<mapsto> join_with '','' HEADER @ [CHR 0x0A]))"
  by (simp add: write_to_file_def)

lemma sim_empty_get_pages:
  "get_pages (sim_env []) country_code api_key category_id n = Some (Inr [], Suc n)"
  unfolding get_pages_def
  by (rule pages_loop_break, rule api_request_failure[where reply = RequestError])
     (simp_all add: sim_http_get)

theorem no_rows_files_witness:
  "categories_loop (sim_env []) ''US'' ''KEY'' ''out'' [(''10'', ''Music''), (''17'', ''Sports'')]
       (0, Map.empty)
     = Some (Inr (), 2, Map.empty)
   \<and> get_data (sim_env []) [''US''] ''KEY'' ''out'' False (0, Map.empty)
     = Some (Inr (), 1,
         [output_filename (sim_env []) ''US'' ''out'' None \<mapsto> join_with '','' HEADER @ [CHR 0x0A]])"
proof -
  let ?E = "sim_env []"
  have d: "disk_ok ?E (output_filename ?E ''US'' ''out'' None)"
    by (simp add: sim_env_def)
  note n1 = no_rows_files[of ?E "''US''" "''KEY''" "''10''" 0 1 "''out''" "''Music''"
      "[(''17'', ''Sports'')]" Map.empty 1 "[]"]
  note n2 = no_rows_files[of ?E "''US''" "''KEY''" "''17''" 1 2 "''out''" "''Sports''"
      "[]" Map.empty 2 "[]"]
  have c: "categories_loop ?E ''US'' ''KEY'' ''out'' [(''10'', ''Music''), (''17'', ''Sports'')]
       (0, Map.empty) = Some (Inr (), 2, Map.empty)"
    using n1 n2 sim_empty_get_pages[of "''US''" "''KEY''" "Some ''10''" 0]
      sim_empty_get_pages[of "''US''" "''KEY''" "Some ''17''" 1]
    by (simp del: categories_loop.simps(2) add: numeral_2_eq_2)
  have g: "get_data ?E [''US''] ''KEY'' ''out'' False (0, Map.empty)
     = Some (Inr (), 1,
         [output_filename ?E ''US'' ''out'' None \<mapsto> join_with '','' HEADER @ [CHR 0x0A]])"
    using n1 d sim_empty_get_pages[of "''US''" "''KEY''" None 0]
    by (simp del: get_data.simps(2))
  from c g show ?thesis by simp
qed

section \<open>Fatal replies\<close>

text \<open>
  C7, on two runs over the countries \<open>US\<close> and \<open>CA\<close> with categories. When the first
  request is answered with status 403 the process ends at once with exit status 1, having
  made one request and written no file. When it is answered with status 429 the process
  ends at once as well, one request made and no file written, but its exit status is 0:
  that branch calls \<^verbatim>\<open>sys.exit()\<close> without an argument.
\<close>

theorem fatal_reply_exit_status:
  "main (sim_env [Response 403 PyNone]) [''US'', ''CA''] ''KEY'' ''out'' True (0, Map.empty)
     = Some (1, 1, Map.empty)
   \<and> main (sim_env [Response 429 PyNone]) [''US'', ''CA''] ''KEY'' ''out'' True (0, Map.empty)
     = Some (0, 1, Map.empty)"
proof -
  have a: "get_pages (sim_env [Response 403 PyNone]) ''US'' ''KEY'' (Some ''1'') 0
      = Some (Inl (SystemExit (Some 1)), 1)"
    unfolding get_pages_def
    by (rule pages_loop_raise, rule api_request_403[where body = PyNone])
       (simp add: sim_http_get)
  have b: "get_pages (sim_env [Response 429 PyNone]) ''US'' ''KEY'' (Some ''1'') 0
      = Some (Inl (SystemExit None), 1)"
    unfolding get_pages_def
    by (rule pages_loop_raise, rule api_request_429[where body = PyNone])
       (simp add: sim_http_get)
  show ?thesis
    by (simp add: main_def CATEGORIES_def a b)
qed


end
